theory Spec2Isabelle
  imports Main
begin

section \<open>Tensors and the object store\<close>

text \<open>
  A tensor is a shape and its elements in row-major order. The element type is left
  open: the encoder only adds elements, everything else happens inside its sub-blocks.
  \<open>wf_tensor\<close> says that the number of elements is the product of the shape.
\<close>

record 'a tensor =
  shape :: "nat list"
  data :: "'a list"

definition wf_tensor :: "'a tensor \<Rightarrow> bool" where
  "wf_tensor t = (length (data t) = prod_list (shape t))"

text \<open>
  Python variables hold references. The store lists the tensor objects that exist; a
  reference is an index into it, and a new object is appended at the end.
\<close>

type_synonym addr = nat
type_synonym 'a store = "'a tensor list"

text \<open>
  \<open>ShapeError\<close> is the RuntimeError that torch raises on shapes that do not fit;
  \<open>BlockError\<close> stands for an exception of a sub-block. A statement runs in a store and
  returns a result or raises, and leaves the store as it is at that point; an exception
  ends the run.
\<close>

datatype error = ShapeError | BlockError

type_synonym ('a, 'r) run = "'a store \<Rightarrow> (error + 'r) \<times> 'a store"

definition bind_run :: "('a, 'r) run \<Rightarrow> ('r \<Rightarrow> ('a, 'q) run) \<Rightarrow> ('a, 'q) run" where
  "bind_run m f s = (case m s of (Inl e, s') \<Rightarrow> (Inl e, s') | (Inr r, s') \<Rightarrow> f r s')"

definition return_run :: "'r \<Rightarrow> ('a, 'r) run" where
  "return_run r s = (Inr r, s)"

section \<open>The tensor operations the encoder uses\<close>

text \<open>\<open>chunks m n xs\<close> cuts the first \<open>m\<close> blocks of \<open>n\<close> elements from \<open>xs\<close>.\<close>

fun chunks :: "nat \<Rightarrow> nat \<Rightarrow> 'a list \<Rightarrow> 'a list list" where
  "chunks 0 n xs = []"
| "chunks (Suc m) n xs = take n xs # chunks m n (drop n xs)"

text \<open>
  In-place addition \<open>self.add_(other)\<close> of torch: \<open>other\<close> is broadcast to the shape
  of \<open>self\<close>, which must not change. Shapes are aligned at the last dimension; a
  dimension of \<open>other\<close> either equals that of \<open>self\<close> or is 1, and \<open>other\<close> has no
  more dimensions than \<open>self\<close>. Otherwise torch raises a RuntimeError and \<open>self\<close> is
  left as it was.
\<close>

definition expandable :: "nat list \<Rightarrow> nat list \<Rightarrow> bool" where
  "expandable osh ssh =
     (length osh \<le> length ssh \<and>
      list_all2 (\<lambda>d n. d = n \<or> d = 1) osh (drop (length ssh - length osh) ssh))"

text \<open>
  The elements of a tensor of shape \<open>osh\<close> broadcast to the shape \<open>ssh\<close>: a dimension
  that \<open>osh\<close> lacks, or has as 1, repeats the elements below it.
\<close>

fun expand :: "nat list \<Rightarrow> nat list \<Rightarrow> 'a list \<Rightarrow> 'a list" where
  "expand osh [] xs = xs"
| "expand osh (n # ssh) xs =
     (if length osh \<le> length ssh then concat (replicate n (expand osh ssh xs))
      else (case osh of
              [] \<Rightarrow> xs
            | d # osh' \<Rightarrow>
                if d = n then concat (map (expand osh' ssh) (chunks d (prod_list osh') xs))
                else concat (replicate n (expand osh' ssh xs))))"

definition tensor_add :: "'a::plus tensor \<Rightarrow> 'a tensor \<Rightarrow> error + 'a tensor" where
  "tensor_add t u =
     (if expandable (shape u) (shape t)
      then Inr (t\<lparr>data := map2 (+) (data t) (expand (shape u) (shape t) (data u))\<rparr>)
      else Inl ShapeError)"

definition add_inplace :: "addr \<Rightarrow> addr \<Rightarrow> ('a::plus, unit) run" where
  "add_inplace self other s =
     (case tensor_add (s ! self) (s ! other) of
        Inl e \<Rightarrow> (Inl e, s)
      | Inr t \<Rightarrow> (Inr (), s[self := t]))"

text \<open>
  \<open>nn.LayerNorm(d_model)\<close> of torch normalises every vector along the last dimension on
  its own and returns a new tensor. It raises a RuntimeError unless the last dimension
  of its input is \<open>d_model\<close>. The arithmetic on one vector (mean, variance, learnt scale
  and shift) is floating point and is a parameter here, \<open>row_fn\<close>.
\<close>

record 'a LayerNorm =
  normalized_shape :: nat
  row_fn :: "'a list \<Rightarrow> 'a list"

definition LayerNorm_forward :: "'a LayerNorm \<Rightarrow> 'a tensor \<Rightarrow> error + 'a tensor" where
  "LayerNorm_forward ln t =
     (if shape t \<noteq> [] \<and> last (shape t) = normalized_shape ln
      then Inr (t\<lparr>data := concat (map (row_fn ln)
                  (chunks (prod_list (butlast (shape t))) (normalized_shape ln) (data t)))\<rparr>)
      else Inl ShapeError)"

text \<open>
  \<open>torch.cat((t, u), dim=0)\<close>, for two tensors that agree on all dimensions but the
  first: the batch made of the elements of \<open>t\<close> followed by those of \<open>u\<close>.
\<close>

definition cat0 :: "'a tensor \<Rightarrow> 'a tensor \<Rightarrow> 'a tensor" where
  "cat0 t u = \<lparr>shape = (hd (shape t) + hd (shape u)) # tl (shape t), data = data t @ data u\<rparr>"

text \<open>
  Calling a sub-block or a normalisation layer reads the argument objects and stores the
  result as a new object.
\<close>

definition call :: "('a tensor \<Rightarrow> error + 'a tensor) \<Rightarrow> addr \<Rightarrow> ('a, addr) run" where
  "call f x s =
     (case f (s ! x) of
        Inl e \<Rightarrow> (Inl e, s)
      | Inr t \<Rightarrow> (Inr (length s), s @ [t]))"

definition call3 :: "('a tensor \<Rightarrow> 'a tensor \<Rightarrow> 'a tensor \<Rightarrow> error + 'a tensor) \<Rightarrow>
    addr \<Rightarrow> addr \<Rightarrow> addr \<Rightarrow> ('a, addr) run" where
  "call3 f q k v s =
     (case f (s ! q) (s ! k) (s ! v) of
        Inl e \<Rightarrow> (Inl e, s)
      | Inr t \<Rightarrow> (Inr (length s), s @ [t]))"

section \<open>The encoder\<close>

text \<open>
  Modelled from the spec: \<open>MultiHeadAttention\<close> and \<open>PositionwiseFeedForward\<close>
  (module \<open>src.blocks\<close>) and \<open>generate_positional_encoding\<close> (module \<open>src.utils\<close>)
  are imported by \<open>Encoder.py\<close> and defined elsewhere. The specification describes a
  block as a map from its input tensors to an output tensor: here a block is a function
  from the values of its arguments to the value of its result, or to an error, and a call
  stores the result as a new object and changes no existing one (\<open>call\<close>, \<open>call3\<close>).
  The generator is a function from \<open>k\<close> and \<open>d_model\<close> to the table. All three are
  parameters, collected in \<open>blocks\<close> together with the vector functions of the two
  normalisation layers.
\<close>

record 'a blocks =
  MultiHeadAttention :: "nat \<Rightarrow> nat \<Rightarrow> nat \<Rightarrow> nat \<Rightarrow>
     'a tensor \<Rightarrow> 'a tensor \<Rightarrow> 'a tensor \<Rightarrow> error + 'a tensor"
  PositionwiseFeedForward :: "nat \<Rightarrow> 'a tensor \<Rightarrow> error + 'a tensor"
  norm_rows1 :: "'a list \<Rightarrow> 'a list"
  norm_rows2 :: "'a list \<Rightarrow> 'a list"
  generate_positional_encoding :: "nat \<Rightarrow> nat \<Rightarrow> 'a tensor"

record 'a Encoder =
  selfAttention :: "'a tensor \<Rightarrow> 'a tensor \<Rightarrow> 'a tensor \<Rightarrow> error + 'a tensor"
  feedForward :: "'a tensor \<Rightarrow> error + 'a tensor"
  layerNorm1 :: "'a LayerNorm"
  layerNorm2 :: "'a LayerNorm"
  PE :: addr

text \<open>\<open>Encoder.__init__\<close>: the table is generated once and kept as a tensor object.\<close>

definition init :: "'a blocks \<Rightarrow> nat \<Rightarrow> nat \<Rightarrow> nat \<Rightarrow> nat \<Rightarrow> nat \<Rightarrow>
    'a store \<Rightarrow> 'a Encoder \<times> 'a store" where
  "init lib d_model q v h k s =
     (\<lparr>selfAttention = MultiHeadAttention lib d_model q v h,
       feedForward = PositionwiseFeedForward lib d_model,
       layerNorm1 = \<lparr>normalized_shape = d_model, row_fn = norm_rows1 lib\<rparr>,
       layerNorm2 = \<lparr>normalized_shape = d_model, row_fn = norm_rows2 lib\<rparr>,
       PE = length s\<rparr>,
      s @ [generate_positional_encoding lib k d_model])"

text \<open>
  \<open>Encoder.forward\<close>, lines 70 to 76: the position encoding is added in place, then
  attention, residual sum and the first normalisation. The result is the pair of the
  local variables \<open>x\<close> and \<open>residual\<close> as they stand after line 76.
\<close>

definition forward_attention :: "'a::plus Encoder \<Rightarrow> addr \<Rightarrow> ('a, addr \<times> addr) run" where
  "forward_attention enc x =
     bind_run (add_inplace x (PE enc)) (\<lambda>_.
     let residual = x in
     bind_run (call3 (selfAttention enc) x x x) (\<lambda>x.
     bind_run (add_inplace x residual) (\<lambda>_.
     bind_run (call (LayerNorm_forward (layerNorm1 enc)) x) (\<lambda>x.
     return_run (x, residual)))))"

text \<open>
  Lines 79 to 84. Line 79 assigns to a new variable \<open>redisual\<close>, so the \<open>residual\<close> of
  line 81 is still the one bound at line 73.
\<close>

definition forward :: "'a::plus Encoder \<Rightarrow> addr \<Rightarrow> ('a, addr) run" where
  "forward enc x =
     bind_run (forward_attention enc x) (\<lambda>(x, residual).
     let redisual = x in
     bind_run (call (feedForward enc) x) (\<lambda>x.
     bind_run (add_inplace x residual) (\<lambda>_.
     bind_run (call (LayerNorm_forward (layerNorm2 enc)) x) (\<lambda>x.
     return_run x))))"

text \<open>The value of the tensor that a run returns, or its error.\<close>

definition result_value :: "(error + addr) \<times> 'a store \<Rightarrow> error + 'a tensor" where
  "result_value r = (case r of (Inl e, s) \<Rightarrow> Inl e | (Inr a, s) \<Rightarrow> Inr (s ! a))"

section \<open>The attributes of the module, and sequences of invocations\<close>

text \<open>
  \<open>Encoder\<close> is a \<open>torch.nn.Module\<close>. Assigning to an attribute of a module files the
  value by its kind (\<open>Module.__setattr__\<close>): a \<open>Parameter\<close> goes to the parameters of the
  module, a \<open>Module\<close> to its sub-modules, anything else, a plain tensor included, is an
  ordinary attribute. \<open>Module.parameters()\<close>, the learnable parameters, are the module's
  own parameters and those of its sub-modules. A value is given by its kind and the
  tensor objects behind it; for a module these are the objects that its
  \<open>parameters()\<close> yields.
\<close>

datatype py_value = ParameterV addr | ModuleV "addr list" | TensorV addr

record module_attrs =
  own_parameters :: "(string \<times> addr) list"
  sub_modules :: "(string \<times> addr list) list"
  plain_attrs :: "(string \<times> addr) list"

definition empty_attrs :: module_attrs where
  "empty_attrs = \<lparr>own_parameters = [], sub_modules = [], plain_attrs = []\<rparr>"

definition setattr :: "module_attrs \<Rightarrow> string \<Rightarrow> py_value \<Rightarrow> module_attrs" where
  "setattr m name v =
     (case v of
        ParameterV a \<Rightarrow> m\<lparr>own_parameters := own_parameters m @ [(name, a)]\<rparr>
      | ModuleV ps \<Rightarrow> m\<lparr>sub_modules := sub_modules m @ [(name, ps)]\<rparr>
      | TensorV a \<Rightarrow> m\<lparr>plain_attrs := plain_attrs m @ [(name, a)]\<rparr>)"

definition parameters :: "module_attrs \<Rightarrow> addr list" where
  "parameters m = map snd (own_parameters m) @ concat (map snd (sub_modules m))"

text \<open>
  The five assignments of \<open>Encoder.__init__\<close>, lines 45 to 51, after \<open>super().__init__()\<close>.
  The class docstring gives the kinds: the two sub-blocks and the two normalisation
  layers are modules, \<open>PE\<close> is a \<open>torch.Tensor\<close>.
\<close>

definition init_attrs :: "py_value \<Rightarrow> py_value \<Rightarrow> py_value \<Rightarrow> py_value \<Rightarrow> py_value \<Rightarrow>
    module_attrs" where
  "init_attrs selfAttention_v feedForward_v layerNorm1_v layerNorm2_v PE_v =
     setattr (setattr (setattr (setattr (setattr empty_attrs
       ''_selfAttention'' selfAttention_v)
       ''_feedForward'' feedForward_v)
       ''_layerNorm1'' layerNorm1_v)
       ''_layerNorm2'' layerNorm2_v)
       ''_PE'' PE_v"




section \<open>What forward computes, on values\<close>

definition bind_res :: "error + 'a \<Rightarrow> ('a \<Rightarrow> error + 'b) \<Rightarrow> error + 'b" where
  "bind_res m f = (case m of Inl e \<Rightarrow> Inl e | Inr a \<Rightarrow> f a)"

text \<open>
  The values that lines 70 to 76 compute from the values of the table and of the input:
  the result of the first normalisation, and the input with the table added.
\<close>

definition attention_value :: "'a::plus Encoder \<Rightarrow> 'a tensor \<Rightarrow> 'a tensor \<Rightarrow>
    error + 'a tensor \<times> 'a tensor" where
  "attention_value enc pe x =
     bind_res (tensor_add x pe) (\<lambda>x'.
     bind_res (selfAttention enc x' x' x') (\<lambda>a.
     bind_res (tensor_add a x') (\<lambda>b.
     bind_res (LayerNorm_forward (layerNorm1 enc) b) (\<lambda>y1. Inr (y1, x')))))"

text \<open>The value that forward returns: the second residual is the input with the table added.\<close>

definition forward_value :: "'a::plus Encoder \<Rightarrow> 'a tensor \<Rightarrow> 'a tensor \<Rightarrow> error + 'a tensor" where
  "forward_value enc pe x =
     bind_res (attention_value enc pe x) (\<lambda>(y1, x').
     bind_res (feedForward enc y1) (\<lambda>f.
     bind_res (tensor_add f x') (\<lambda>c.
     LayerNorm_forward (layerNorm2 enc) c)))"

section \<open>The forward contract as the specification words it\<close>

text \<open>
  Step 2 of the forward contract: \<open>r1 = x'\<close>, \<open>a = Attention(x', x', x')\<close>,
  \<open>y1 = Normalize1(a + r1)\<close>, where \<open>x' = x + PE\<close>.
\<close>

definition spec_sublayer1 :: "'a::plus Encoder \<Rightarrow> 'a tensor \<Rightarrow> 'a tensor \<Rightarrow> error + 'a tensor" where
  "spec_sublayer1 enc pe x =
     bind_res (tensor_add x pe) (\<lambda>x'.
     let r1 = x' in
     bind_res (selfAttention enc x' x' x') (\<lambda>a.
     bind_res (tensor_add a r1) (\<lambda>s.
     LayerNorm_forward (layerNorm1 enc) s)))"

text \<open>
  Step 3 of the forward contract: \<open>r2 = y1\<close>, \<open>f = FeedForward(y1)\<close>,
  \<open>y2 = Normalize2(f + r2)\<close>.
\<close>

definition spec_forward :: "'a::plus Encoder \<Rightarrow> 'a tensor \<Rightarrow> 'a tensor \<Rightarrow> error + 'a tensor" where
  "spec_forward enc pe x =
     bind_res (spec_sublayer1 enc pe x) (\<lambda>y1.
     let r2 = y1 in
     bind_res (feedForward enc y1) (\<lambda>f.
     bind_res (tensor_add f r2) (\<lambda>s.
     LayerNorm_forward (layerNorm2 enc) s)))"

section \<open>An encoder to run\<close>

text \<open>
  Integer elements, a table of ones, and sub-blocks that return their input: attention
  returns the query, the feed-forward block and both vector normalisations are the
  identity. \<open>ex_store k d t\<close> is the store after constructing the encoder in the empty
  store and creating the input \<open>t\<close>: the table is object 0, the input is object 1.
\<close>

definition ex_blocks :: "int blocks" where
  "ex_blocks =
     \<lparr>MultiHeadAttention = (\<lambda>d q v h query key value. Inr query),
      PositionwiseFeedForward = (\<lambda>d t. Inr t),
      norm_rows1 = (\<lambda>r. r),
      norm_rows2 = (\<lambda>r. r),
      generate_positional_encoding = (\<lambda>k d. \<lparr>shape = [k, d], data = replicate (k * d) 1\<rparr>)\<rparr>"

definition ex_encoder :: "nat \<Rightarrow> nat \<Rightarrow> int Encoder" where
  "ex_encoder k d = fst (init ex_blocks d 1 1 1 k [])"

definition ex_store :: "nat \<Rightarrow> nat \<Rightarrow> int tensor \<Rightarrow> int store" where
  "ex_store k d t = snd (init ex_blocks d 1 1 1 k []) @ [t]"


section \<open>Shapes and errors of the tensor operations\<close>

lemma expandable_PE:
  "expandable [k, d] [B, K, d'] \<longleftrightarrow> (k = K \<or> k = 1) \<and> (d = d' \<or> d = 1)"
  by (auto simp: expandable_def)

lemma list_all2_last:
  "list_all2 P xs ys \<Longrightarrow> xs \<noteq> [] \<Longrightarrow> P (last xs) (last ys)"
  by (induction xs ys rule: list_all2_induct) (auto simp: list_all2_Nil)

lemma expandable_last:
  assumes "expandable osh ssh" "osh \<noteq> []"
  shows "ssh \<noteq> [] \<and> (last osh = last ssh \<or> last osh = 1)"
proof -
  let ?t = "drop (length ssh - length osh) ssh"
  from assms(1) have l: "list_all2 (\<lambda>d n. d = n \<or> d = 1) osh ?t"
    unfolding expandable_def by (rule conjunct2)
  have len: "length ?t = length osh"
    using list_all2_lengthD[OF l] by simp
  have lt: "length ssh - length osh < length ssh"
    using len assms(2) by (cases osh) auto
  then have ssh: "ssh \<noteq> []"
    by auto
  have "last ?t = last ssh"
    using lt by (rule last_drop)
  moreover have "last osh = last ?t \<or> last osh = 1"
    using list_all2_last[OF l assms(2)] .
  ultimately show ?thesis using ssh by simp
qed

lemma tensor_add_shape: "tensor_add t u = Inr r \<Longrightarrow> shape r = shape t"
  by (auto simp: tensor_add_def split: if_splits)

lemma tensor_add_Inr_iff:
  "(\<exists>r. tensor_add t u = Inr r) \<longleftrightarrow> expandable (shape u) (shape t)"
  by (auto simp: tensor_add_def)

lemma tensor_add_same_shape:
  "shape u = shape t \<Longrightarrow> \<exists>r. tensor_add t u = Inr r \<and> shape r = shape t"
  by (auto simp: tensor_add_def expandable_def list_all2_same)

lemma LayerNorm_forward_shape: "LayerNorm_forward ln t = Inr r \<Longrightarrow> shape r = shape t"
  by (auto simp: LayerNorm_forward_def split: if_splits)

lemma LayerNorm_forward_ok:
  "shape t \<noteq> [] \<Longrightarrow> last (shape t) = normalized_shape ln \<Longrightarrow>
   \<exists>r. LayerNorm_forward ln t = Inr r \<and> shape r = shape t"
  by (auto simp: LayerNorm_forward_def)

lemma add_inplace_error:
  "\<not> expandable (shape (s ! b)) (shape (s ! a)) \<Longrightarrow> add_inplace a b s = (Inl ShapeError, s)"
  by (simp add: add_inplace_def tensor_add_def)

section \<open>The store after forward, and the value it returns\<close>

lemma forward_attention_error_at_injection:
  "\<not> expandable (shape (s ! PE enc)) (shape (s ! x)) \<Longrightarrow>
   forward_attention enc x s = (Inl ShapeError, s)"
  by (simp add: forward_attention_def bind_run_def add_inplace_error)

lemma forward_error_at_injection:
  "\<not> expandable (shape (s ! PE enc)) (shape (s ! x)) \<Longrightarrow> forward enc x s = (Inl ShapeError, s)"
  by (simp add: forward_def bind_run_def forward_attention_error_at_injection)

lemma forward_attention_value:
  assumes "x < length s"
  shows "(case forward_attention enc x s of
            (Inl e, s') \<Rightarrow> attention_value enc (s ! PE enc) (s ! x) = Inl e
          | (Inr (y, r), s') \<Rightarrow> r = x \<and> y < length s' \<and> y \<noteq> x \<and> x < length s' \<and>
               attention_value enc (s ! PE enc) (s ! x) = Inr (s' ! y, s' ! x))"
  using assms
  by (auto simp: forward_attention_def attention_value_def bind_run_def bind_res_def
      add_inplace_def call_def call3_def return_run_def Let_def nth_append
      split: sum.splits prod.splits)

lemma forward_value_refines:
  assumes "x < length s"
  shows "result_value (forward enc x s) = forward_value enc (s ! PE enc) (s ! x)"
  using forward_attention_value[OF assms, of enc]
  by (auto simp: forward_def forward_value_def bind_run_def bind_res_def result_value_def
      add_inplace_def call_def call3_def return_run_def Let_def nth_append
      split: sum.splits prod.splits)

lemma spec_sublayer1_attention_value:
  "spec_sublayer1 enc pe x = map_sum id fst (attention_value enc pe x)"
  by (simp add: spec_sublayer1_def attention_value_def bind_res_def Let_def
      split: sum.splits)

lemma forward_input_after:
  assumes "x < length s" "forward enc x s = (Inr r, s')"
  shows "tensor_add (s ! x) (s ! PE enc) = Inr (s' ! x) \<and> r \<noteq> x \<and> r < length s'"
  using assms
  by (auto simp: forward_def forward_attention_def bind_run_def add_inplace_def call_def
      call3_def return_run_def Let_def nth_append split: sum.splits prod.splits)


lemma attention_value_last_dim:
  assumes sh: "shape x = sh @ [d']" and d: "d' \<noteq> 1"
    and n1: "normalized_shape (layerNorm1 enc) \<noteq> d'"
  shows "isl (attention_value enc pe x)"
proof (cases "tensor_add x pe")
  case (Inl e)
  then show ?thesis by (simp add: attention_value_def bind_res_def)
next
  case (Inr x')
  then have shx': "shape x' = sh @ [d']"
    using tensor_add_shape[of x pe x'] sh by simp
  show ?thesis
  proof (cases "selfAttention enc x' x' x'")
    case (Inl e)
    then show ?thesis using Inr by (simp add: attention_value_def bind_res_def)
  next
    case a: (Inr a)
    show ?thesis
    proof (cases "tensor_add a x'")
      case (Inl e)
      then show ?thesis using Inr a by (simp add: attention_value_def bind_res_def)
    next
      case b: (Inr b)
      then have "expandable (shape x') (shape a)"
        using tensor_add_Inr_iff by blast
      then have "shape a \<noteq> [] \<and> last (shape a) = d'"
        using expandable_last[of "shape x'" "shape a"] shx' d by auto
      then have "shape b \<noteq> [] \<and> last (shape b) = d'"
        using tensor_add_shape[OF b] by simp
      then have "LayerNorm_forward (layerNorm1 enc) b = Inl ShapeError"
        using n1 by (auto simp: LayerNorm_forward_def)
      then show ?thesis using Inr a b by (simp add: attention_value_def bind_res_def)
    qed
  qed
qed

section \<open>Stacked batches\<close>

lemma length_chunks: "length (chunks m n xs) = m"
  by (induction m arbitrary: xs) auto

lemma chunks_append:
  "length xs = m * n \<Longrightarrow> chunks (m + m') n (xs @ ys) = chunks m n xs @ chunks m' n ys"
  by (induction m arbitrary: xs) auto

lemma concat_chunks: "length xs = m * n \<Longrightarrow> concat (chunks m n xs) = xs"
  by (induction m arbitrary: xs) auto

lemma chunks_length:
  "length xs = m * n \<Longrightarrow> c \<in> set (chunks m n xs) \<Longrightarrow> length c = n"
proof (induction m arbitrary: xs)
  case 0
  then show ?case by simp
next
  case (Suc m)
  have "length (drop n xs) = m * n"
    using Suc.prems(1) by simp
  then show ?case
    using Suc.prems Suc.IH[of "drop n xs"] by auto
qed

lemma length_concat_replicate: "length (concat (replicate n xs)) = n * length xs"
  by (induction n) auto

lemma length_concat_const:
  "(\<And>c. c \<in> set cs \<Longrightarrow> length (f c) = p) \<Longrightarrow> length (concat (map f cs)) = length cs * p"
  by (induction cs) auto

lemma expandable_shorter:
  "length osh \<le> length ssh \<Longrightarrow> expandable osh (n # ssh) = expandable osh ssh"
  by (simp add: expandable_def Suc_diff_le)

lemma expandable_Cons:
  "length osh = length ssh \<Longrightarrow>
   expandable (d # osh) (n # ssh) = ((d = n \<or> d = 1) \<and> expandable osh ssh)"
  by (simp add: expandable_def)

lemma expandable_longer:
  "expandable osh (n # ssh) \<Longrightarrow> \<not> length osh \<le> length ssh \<Longrightarrow>
   \<exists>d osh'. osh = d # osh' \<and> length osh' = length ssh"
  by (cases osh) (auto simp: expandable_def)

lemma length_expand:
  "expandable osh ssh \<Longrightarrow> length xs = prod_list osh \<Longrightarrow>
   length (expand osh ssh xs) = prod_list ssh"
proof (induction osh ssh xs rule: expand.induct)
  case (1 osh xs)
  then show ?case by (simp add: expandable_def)
next
  case (2 osh n ssh xs)
  show ?case
  proof (cases "length osh \<le> length ssh")
    case True
    then have "expandable osh ssh"
      using "2.prems"(1) by (simp add: expandable_shorter)
    then have "length (expand osh ssh xs) = prod_list ssh"
      using "2.IH"(1)[OF True] "2.prems"(2) by simp
    then show ?thesis using True by (simp add: length_concat_replicate)
  next
    case False
    then obtain d osh' where osh: "osh = d # osh'" and len: "length osh' = length ssh"
      using expandable_longer[OF "2.prems"(1)] by blast
    have ex: "(d = n \<or> d = 1) \<and> expandable osh' ssh"
      using "2.prems"(1) len by (simp add: osh expandable_Cons)
    show ?thesis
    proof (cases "d = n")
      case True
      have "length (expand osh' ssh c) = prod_list ssh"
        if "c \<in> set (chunks d (prod_list osh') xs)" for c
      proof -
        have "length c = prod_list osh'"
          using chunks_length[OF _ that] "2.prems"(2) by (simp add: osh)
        then show ?thesis
          using "2.IH"(2)[OF False osh True that] ex by simp
      qed
      then have "length (concat (map (expand osh' ssh) (chunks d (prod_list osh') xs))) =
                 d * prod_list ssh"
        using length_concat_const[of "chunks d (prod_list osh') xs" "expand osh' ssh" "prod_list ssh"]
        by (simp add: length_chunks)
      then show ?thesis using False True by (simp add: osh)
    next
      case dn: False
      then have d1: "d = 1" using ex by simp
      then have "length xs = prod_list osh'" using "2.prems"(2) by (simp add: osh)
      then have "length (expand osh' ssh xs) = prod_list ssh"
        using "2.IH"(3)[OF False osh dn] ex by simp
      then show ?thesis using False dn by (simp add: osh length_concat_replicate)
    qed
  qed
qed

lemma expand_same: "length xs = prod_list sh \<Longrightarrow> expand sh sh xs = xs"
proof (induction sh arbitrary: xs)
  case Nil
  then show ?case by simp
next
  case (Cons n sh)
  have "map (expand sh sh) (chunks n (prod_list sh) xs) = chunks n (prod_list sh) xs"
  proof (rule map_idI)
    fix c assume "c \<in> set (chunks n (prod_list sh) xs)"
    then have "length c = prod_list sh"
      using chunks_length[of xs n "prod_list sh" c] Cons.prems by simp
    then show "expand sh sh c = c" by (rule Cons.IH)
  qed
  then show ?case
    using Cons.prems by (simp add: concat_chunks)
qed

lemma shape_cat0: "shape t = [b, K, d] \<Longrightarrow> shape u = [b', K, d] \<Longrightarrow> shape (cat0 t u) = [b + b', K, d]"
  by (simp add: cat0_def)

lemma wf_cat0:
  "shape t = [b, K, d] \<Longrightarrow> shape u = [b', K, d] \<Longrightarrow> wf_tensor t \<Longrightarrow> wf_tensor u \<Longrightarrow>
   wf_tensor (cat0 t u)"
  by (simp add: cat0_def wf_tensor_def algebra_simps)

lemma map2_append:
  "length xs = length us \<Longrightarrow>
   map2 f (xs @ ys) (us @ vs) = map2 f xs us @ map2 f ys vs"
  by simp

lemma tensor_add_wf:
  assumes "tensor_add t u = Inr r" "wf_tensor t" "wf_tensor u"
  shows "wf_tensor r"
proof -
  have e: "expandable (shape u) (shape t)"
    using assms(1) tensor_add_Inr_iff by blast
  have "length (expand (shape u) (shape t) (data u)) = prod_list (shape t)"
    using length_expand[OF e] assms(3) by (simp add: wf_tensor_def)
  then show ?thesis
    using assms(1,2) e by (auto simp: tensor_add_def wf_tensor_def)
qed

lemma tensor_add_eq:
  "expandable (shape u) (shape t) \<Longrightarrow>
   tensor_add t u = Inr (t\<lparr>data := map2 (+) (data t) (expand (shape u) (shape t) (data u))\<rparr>)"
  by (simp add: tensor_add_def)

lemma tensor_add_InrD:
  "tensor_add t u = Inr r \<Longrightarrow>
   expandable (shape u) (shape t) \<and>
   r = t\<lparr>data := map2 (+) (data t) (expand (shape u) (shape t) (data u))\<rparr>"
  by (auto simp: tensor_add_def split: if_splits)

lemma expand_one:
  "length osh \<le> length ssh \<Longrightarrow> expand osh (1 # ssh) xs = expand osh ssh xs"
  by simp

lemma expand_two:
  "length osh \<le> length ssh \<Longrightarrow> expand osh (2 # ssh) xs = expand osh ssh xs @ expand osh ssh xs"
  by (simp add: numeral_2_eq_2)

lemma tensor_add_table_cat0:
  assumes t: "tensor_add t pe = Inr t'" and u: "tensor_add u pe = Inr u'"
    and sht: "shape t = [1, K, d]" and shu: "shape u = [1, K, d]"
    and pe: "shape pe = [k, dm]" and wft: "wf_tensor t" and wfpe: "wf_tensor pe"
  shows "tensor_add (cat0 t u) pe = Inr (cat0 t' u')"
proof -
  let ?E = "expand [k, dm] [K, d] (data pe)"
  have e1: "expandable [k, dm] [1, K, d]"
    using tensor_add_InrD[OF t] pe sht by simp
  then have e2: "expandable [k, dm] [2, K, d]"
    by (simp add: expandable_PE)
  have e0: "expandable [k, dm] [K, d]"
    using e1 by (simp add: expandable_def)
  have lenE: "length ?E = K * d"
    using length_expand[OF e0, of "data pe"] wfpe pe by (simp add: wf_tensor_def)
  have x1: "expand [k, dm] [1, K, d] (data pe) = ?E"
    by (rule expand_one) simp
  have x2: "expand [k, dm] [2, K, d] (data pe) = ?E @ ?E"
    by (rule expand_two) simp
  have lt: "length (data t) = length ?E"
    using wft sht lenE by (simp add: wf_tensor_def)
  have t': "t' = t\<lparr>data := map2 (+) (data t) ?E\<rparr>"
    using tensor_add_InrD[OF t] by (simp only: pe sht x1)
  have u': "u' = u\<lparr>data := map2 (+) (data u) ?E\<rparr>"
    using tensor_add_InrD[OF u] by (simp only: pe shu x1)
  have sc: "shape (cat0 t u) = [2, K, d]"
    by (simp add: cat0_def sht shu)
  have "expandable (shape pe) (shape (cat0 t u))"
    by (simp only: pe sc e2)
  then have "tensor_add (cat0 t u) pe =
        Inr ((cat0 t u)\<lparr>data := map2 (+) (data (cat0 t u))
               (expand (shape pe) (shape (cat0 t u)) (data pe))\<rparr>)"
    by (rule tensor_add_eq)
  also have "expand (shape pe) (shape (cat0 t u)) (data pe) = ?E @ ?E"
    by (simp only: pe sc x2)
  also have "(cat0 t u)\<lparr>data := map2 (+) (data (cat0 t u)) (?E @ ?E)\<rparr> = cat0 t' u'"
    unfolding t' u' using lt by (simp add: cat0_def del: expand.simps)
  finally show ?thesis .
qed

lemma tensor_add_same_cat0:
  assumes a: "tensor_add a t = Inr b" and a': "tensor_add a' t' = Inr b'"
    and sh: "shape a = [1, K, d]" "shape t = [1, K, d]" "shape a' = [1, K, d]" "shape t' = [1, K, d]"
    and wf: "wf_tensor a" "wf_tensor t" "wf_tensor t'"
  shows "tensor_add (cat0 a a') (cat0 t t') = Inr (cat0 b b')"
proof -
  have e: "expandable sh sh" for sh :: "nat list"
    by (simp add: expandable_def list_all2_same)
  have lt: "length (data t) = K * d" "length (data t') = K * d" "length (data a) = K * d"
    using wf sh by (simp_all add: wf_tensor_def)
  have xt: "expand [1, K, d] [1, K, d] (data t) = data t"
    by (rule expand_same) (simp add: lt)
  have xt': "expand [1, K, d] [1, K, d] (data t') = data t'"
    by (rule expand_same) (simp add: lt)
  have b: "b = a\<lparr>data := map2 (+) (data a) (data t)\<rparr>"
    using tensor_add_InrD[OF a] by (simp only: sh xt)
  have b': "b' = a'\<lparr>data := map2 (+) (data a') (data t')\<rparr>"
    using tensor_add_InrD[OF a'] by (simp only: sh xt')
  have sc: "shape (cat0 a a') = [2, K, d]" "shape (cat0 t t') = [2, K, d]"
    using sh by (simp_all add: cat0_def)
  have "length (data (cat0 t t')) = prod_list [2, K, d]"
    using lt by (simp add: cat0_def)
  then have x: "expand [2, K, d] [2, K, d] (data (cat0 t t')) = data (cat0 t t')"
    by (rule expand_same)
  have "expandable (shape (cat0 t t')) (shape (cat0 a a'))"
    by (simp only: sc e)
  then have "tensor_add (cat0 a a') (cat0 t t') =
        Inr ((cat0 a a')\<lparr>data := map2 (+) (data (cat0 a a'))
               (expand (shape (cat0 t t')) (shape (cat0 a a')) (data (cat0 t t')))\<rparr>)"
    by (rule tensor_add_eq)
  also have "expand (shape (cat0 t t')) (shape (cat0 a a')) (data (cat0 t t')) = data (cat0 t t')"
    by (simp only: sc x)
  also have "(cat0 a a')\<lparr>data := map2 (+) (data (cat0 a a')) (data (cat0 t t'))\<rparr> = cat0 b b'"
    unfolding b b' using lt by (simp add: cat0_def)
  finally show ?thesis .
qed

lemma LayerNorm_forward_cat0:
  assumes b: "LayerNorm_forward ln b = Inr y" and b': "LayerNorm_forward ln b' = Inr y'"
    and sh: "shape b = [1, K, d]" "shape b' = [1, K, d]" and wf: "wf_tensor b"
  shows "LayerNorm_forward ln (cat0 b b') = Inr (cat0 y y')"
proof -
  have n: "normalized_shape ln = d"
    using b sh by (auto simp: LayerNorm_forward_def split: if_splits)
  have lb: "length (data b) = K * d"
    using wf sh by (simp add: wf_tensor_def)
  have c: "chunks (K + K) d (data b @ data b') = chunks K d (data b) @ chunks K d (data b')"
    using lb by (rule chunks_append)
  have y: "y = b\<lparr>data := concat (map (row_fn ln) (chunks K d (data b)))\<rparr>"
    using b n sh by (simp add: LayerNorm_forward_def)
  have y': "y' = b'\<lparr>data := concat (map (row_fn ln) (chunks K d (data b')))\<rparr>"
    using b' n sh by (simp add: LayerNorm_forward_def)
  have k2: "2 * K = K + K" by simp
  show ?thesis
    using n c by (simp add: LayerNorm_forward_def cat0_def sh y y' k2)
qed

lemma LayerNorm_forward_wf:
  assumes "LayerNorm_forward ln b = Inr y" and "wf_tensor b"
    and "\<And>r. length (row_fn ln r) = length r"
  shows "wf_tensor y"
proof -
  from assms(1) have ne: "shape b \<noteq> []" and n: "last (shape b) = normalized_shape ln"
    and y: "y = b\<lparr>data := concat (map (row_fn ln)
                (chunks (prod_list (butlast (shape b))) (normalized_shape ln) (data b)))\<rparr>"
    by (auto simp: LayerNorm_forward_def split: if_splits)
  have "prod_list (shape b) = prod_list (butlast (shape b)) * normalized_shape ln"
    using ne n by (metis append_butlast_last_id prod_list.append prod_list.Cons prod_list.Nil mult.right_neutral)
  then have l: "length (data b) = prod_list (butlast (shape b)) * normalized_shape ln"
    using assms(2) by (simp add: wf_tensor_def)
  have "length (row_fn ln c) = normalized_shape ln"
    if "c \<in> set (chunks (prod_list (butlast (shape b))) (normalized_shape ln) (data b))" for c
    using chunks_length[OF l that] assms(3) by simp
  then have "length (data y) = prod_list (butlast (shape b)) * normalized_shape ln"
    using length_concat_const[of _ "row_fn ln" "normalized_shape ln"]
    by (simp add: y length_chunks)
  then show ?thesis using l assms(2) by (simp add: wf_tensor_def y)
qed

lemma forward_value_InrD:
  "forward_value enc pe x = Inr y \<Longrightarrow>
   \<exists>x' a b y1 f c. tensor_add x pe = Inr x' \<and> selfAttention enc x' x' x' = Inr a \<and>
     tensor_add a x' = Inr b \<and> LayerNorm_forward (layerNorm1 enc) b = Inr y1 \<and>
     feedForward enc y1 = Inr f \<and> tensor_add f x' = Inr c \<and>
     LayerNorm_forward (layerNorm2 enc) c = Inr y"
  by (auto simp: forward_value_def attention_value_def bind_res_def split: sum.splits)

lemma forward_value_InrI:
  "tensor_add x pe = Inr x' \<Longrightarrow> selfAttention enc x' x' x' = Inr a \<Longrightarrow>
   tensor_add a x' = Inr b \<Longrightarrow> LayerNorm_forward (layerNorm1 enc) b = Inr y1 \<Longrightarrow>
   feedForward enc y1 = Inr f \<Longrightarrow> tensor_add f x' = Inr c \<Longrightarrow>
   LayerNorm_forward (layerNorm2 enc) c = Inr y \<Longrightarrow> forward_value enc pe x = Inr y"
  by (simp add: forward_value_def attention_value_def bind_res_def)

lemma forward_value_cat0:
  assumes pe: "shape pe = [k, dm]" and wfpe: "wf_tensor pe"
    and sht: "shape t = [1, K, d]" and wft: "wf_tensor t"
    and shu: "shape u = [1, K, d]" and wfu: "wf_tensor u"
    and rows: "\<And>r. length (row_fn (layerNorm1 enc) r) = length r"
    and att_shape: "\<And>t a. shape t = [1, K, d] \<Longrightarrow> wf_tensor t \<Longrightarrow>
        selfAttention enc t t t = Inr a \<Longrightarrow> shape a = [1, K, d] \<and> wf_tensor a"
    and att_batch: "\<And>t u a b. shape t = [1, K, d] \<Longrightarrow> wf_tensor t \<Longrightarrow>
        shape u = [1, K, d] \<Longrightarrow> wf_tensor u \<Longrightarrow>
        selfAttention enc t t t = Inr a \<Longrightarrow> selfAttention enc u u u = Inr b \<Longrightarrow>
        selfAttention enc (cat0 t u) (cat0 t u) (cat0 t u) = Inr (cat0 a b)"
    and ff_shape: "\<And>t a. shape t = [1, K, d] \<Longrightarrow> wf_tensor t \<Longrightarrow>
        feedForward enc t = Inr a \<Longrightarrow> shape a = [1, K, d] \<and> wf_tensor a"
    and ff_batch: "\<And>t u a b. shape t = [1, K, d] \<Longrightarrow> wf_tensor t \<Longrightarrow>
        shape u = [1, K, d] \<Longrightarrow> wf_tensor u \<Longrightarrow>
        feedForward enc t = Inr a \<Longrightarrow> feedForward enc u = Inr b \<Longrightarrow>
        feedForward enc (cat0 t u) = Inr (cat0 a b)"
    and yt: "forward_value enc pe t = Inr y" and yu: "forward_value enc pe u = Inr y'"
  shows "forward_value enc pe (cat0 t u) = Inr (cat0 y y')"
proof -
  obtain t1 a1 b1 n1 f1 c1 where
    t1: "tensor_add t pe = Inr t1" and a1: "selfAttention enc t1 t1 t1 = Inr a1" and
    b1: "tensor_add a1 t1 = Inr b1" and n1: "LayerNorm_forward (layerNorm1 enc) b1 = Inr n1" and
    f1: "feedForward enc n1 = Inr f1" and c1: "tensor_add f1 t1 = Inr c1" and
    y1: "LayerNorm_forward (layerNorm2 enc) c1 = Inr y"
    using forward_value_InrD[OF yt] by blast
  obtain t2 a2 b2 n2 f2 c2 where
    t2: "tensor_add u pe = Inr t2" and a2: "selfAttention enc t2 t2 t2 = Inr a2" and
    b2: "tensor_add a2 t2 = Inr b2" and n2: "LayerNorm_forward (layerNorm1 enc) b2 = Inr n2" and
    f2: "feedForward enc n2 = Inr f2" and c2: "tensor_add f2 t2 = Inr c2" and
    y2: "LayerNorm_forward (layerNorm2 enc) c2 = Inr y'"
    using forward_value_InrD[OF yu] by blast
  have st1: "shape t1 = [1, K, d]" "wf_tensor t1"
    using tensor_add_shape[OF t1] tensor_add_wf[OF t1 wft wfpe] sht by simp_all
  have st2: "shape t2 = [1, K, d]" "wf_tensor t2"
    using tensor_add_shape[OF t2] tensor_add_wf[OF t2 wfu wfpe] shu by simp_all
  have sa1: "shape a1 = [1, K, d]" "wf_tensor a1"
    using att_shape[OF st1 a1] by simp_all
  have sa2: "shape a2 = [1, K, d]" "wf_tensor a2"
    using att_shape[OF st2 a2] by simp_all
  have sb1: "shape b1 = [1, K, d]" "wf_tensor b1"
    using tensor_add_shape[OF b1] tensor_add_wf[OF b1 sa1(2) st1(2)] sa1 by simp_all
  have sb2: "shape b2 = [1, K, d]" "wf_tensor b2"
    using tensor_add_shape[OF b2] tensor_add_wf[OF b2 sa2(2) st2(2)] sa2 by simp_all
  have sn1: "shape n1 = [1, K, d]" "wf_tensor n1"
    using LayerNorm_forward_shape[OF n1] LayerNorm_forward_wf[OF n1 sb1(2) rows] sb1 by simp_all
  have sn2: "shape n2 = [1, K, d]" "wf_tensor n2"
    using LayerNorm_forward_shape[OF n2] LayerNorm_forward_wf[OF n2 sb2(2) rows] sb2 by simp_all
  have sf1: "shape f1 = [1, K, d]" "wf_tensor f1"
    using ff_shape[OF sn1 f1] by simp_all
  have sf2: "shape f2 = [1, K, d]" "wf_tensor f2"
    using ff_shape[OF sn2 f2] by simp_all
  have sc1: "shape c1 = [1, K, d]" "wf_tensor c1"
    using tensor_add_shape[OF c1] tensor_add_wf[OF c1 sf1(2) st1(2)] sf1 by simp_all
  show ?thesis
  proof (rule forward_value_InrI)
    show "tensor_add (cat0 t u) pe = Inr (cat0 t1 t2)"
      using t1 t2 sht shu pe wft wfpe by (rule tensor_add_table_cat0)
    show "selfAttention enc (cat0 t1 t2) (cat0 t1 t2) (cat0 t1 t2) = Inr (cat0 a1 a2)"
      using st1 st2 a1 a2 by (rule att_batch)
    show "tensor_add (cat0 a1 a2) (cat0 t1 t2) = Inr (cat0 b1 b2)"
      using b1 b2 sa1(1) st1(1) sa2(1) st2(1) sa1(2) st1(2) st2(2)
      by (rule tensor_add_same_cat0)
    show "LayerNorm_forward (layerNorm1 enc) (cat0 b1 b2) = Inr (cat0 n1 n2)"
      using n1 n2 sb1(1) sb2(1) sb1(2) by (rule LayerNorm_forward_cat0)
    show "feedForward enc (cat0 n1 n2) = Inr (cat0 f1 f2)"
      using sn1 sn2 f1 f2 by (rule ff_batch)
    show "tensor_add (cat0 f1 f2) (cat0 t1 t2) = Inr (cat0 c1 c2)"
      using c1 c2 sf1(1) st1(1) sf2(1) st2(1) sf1(2) st1(2) st2(2)
      by (rule tensor_add_same_cat0)
    show "LayerNorm_forward (layerNorm2 enc) (cat0 c1 c2) = Inr (cat0 y y')"
      using y1 y2 sc1(1) _ sc1(2)
    proof (rule LayerNorm_forward_cat0)
      show "shape c2 = [1, K, d]"
        using tensor_add_shape[OF c2] sf2 by simp
    qed
  qed
qed

section \<open>Errors of the first sub-layer, the table across invocations, the parameters\<close>

lemma forward_attention_Inl:
  "forward_attention enc x s = (Inl e, s') \<Longrightarrow> forward enc x s = (Inl e, s')"
  by (simp add: forward_def bind_run_def)

lemma attention_value_error:
  "attention_value enc pe x = Inl e \<Longrightarrow>
   e = ShapeError \<or> (\<exists>x'. tensor_add x pe = Inr x' \<and> selfAttention enc x' x' x' = Inl e)"
  by (auto simp: attention_value_def bind_res_def tensor_add_def LayerNorm_forward_def
      split: sum.splits if_splits)

lemma forward_input_store:
  assumes "x < length s" "tensor_add (s ! x) (s ! PE enc) = Inr x'"
  shows "snd (forward enc x s) ! x = x'"
  using assms
  by (auto simp: forward_def forward_attention_def bind_run_def add_inplace_def call_def
      call3_def return_run_def Let_def nth_append split: sum.splits prod.splits)



text \<open>Had the table been assigned as a \<open>Parameter\<close>, it would be a learnable parameter.\<close>

lemma parameters_init_attrs_Parameter:
  "a \<in> set (parameters (init_attrs (ModuleV pa) (ModuleV pf) (ModuleV p1) (ModuleV p2)
             (ParameterV a)))"
  by (simp add: init_attrs_def setattr_def parameters_def empty_attrs_def)

lemmas ex_defs = ex_encoder_def ex_store_def ex_blocks_def init_def

section \<open>The claims\<close>

text \<open>
  C1. The claim: the residual added before the second normalisation is the result
  \<open>y1\<close> of the attention step, so forward returns \<open>Normalize2(FeedForward(y1) + y1)\<close>.
  The code assigns \<open>y1\<close> to \<open>redisual\<close> at line 79 and adds \<open>residual\<close>, the input with
  the table added, at line 81. With the table \<open>[[1]]\<close>, the input \<open>[[[1]]]\<close> and identity
  sub-blocks, forward returns \<open>[[[6]]]\<close>, where the specified wiring gives \<open>[[[8]]]\<close>.
\<close>

theorem forward_second_residual_stale:
  "result_value (forward (ex_encoder 1 1) 1 (ex_store 1 1 \<lparr>shape = [1, 1, 1], data = [1]\<rparr>)) =
     Inr \<lparr>shape = [1, 1, 1], data = [6]\<rparr> \<and>
   spec_forward (ex_encoder 1 1) \<lparr>shape = [1, 1], data = [1]\<rparr> \<lparr>shape = [1, 1, 1], data = [1]\<rparr> =
     Inr \<lparr>shape = [1, 1, 1], data = [8]\<rparr>"
  by code_simp

text \<open>
  C2. The claim: for every input of shape \<open>(B, K, d_model)\<close> with \<open>K \<le> k\<close>, forward
  returns a tensor of shape \<open>(B, K, d_model)\<close>. With a table for \<open>k = 2\<close> and an input of
  length \<open>K = 1\<close>, the addition at line 70 raises and nothing is returned.
\<close>

theorem forward_shape_counterexample:
  "shape (ex_store 2 1 \<lparr>shape = [1, 1, 1], data = [1]\<rparr> ! 1) = [1, 1, 1] \<and> (1::nat) \<le> 2 \<and>
   shape (ex_store 2 1 \<lparr>shape = [1, 1, 1], data = [1]\<rparr> ! PE (ex_encoder 2 1)) = [2, 1] \<and>
   forward (ex_encoder 2 1) 1 (ex_store 2 1 \<lparr>shape = [1, 1, 1], data = [1]\<rparr>) =
     (Inl ShapeError, ex_store 2 1 \<lparr>shape = [1, 1, 1], data = [1]\<rparr>)"
  by code_simp

text \<open>
  C2, amended. For every input of shape \<open>(B, K, d_model)\<close> whose length \<open>K\<close> is \<open>k\<close>,
  or of any length when \<open>k = 1\<close>, forward returns a tensor of shape \<open>(B, K, d_model)\<close>,
  provided attention and feed-forward return a tensor of that shape for every input of
  that shape.
\<close>

theorem forward_shape_preserved:
  assumes x: "x < length s"
    and pe: "shape (s ! PE enc) = [k, d_model]"
    and n1: "normalized_shape (layerNorm1 enc) = d_model"
    and n2: "normalized_shape (layerNorm2 enc) = d_model"
    and sh: "shape (s ! x) = [B, K, d_model]"
    and len: "K = k \<or> k = 1"
    and att: "\<And>t. shape t = [B, K, d_model] \<Longrightarrow>
                \<exists>u. selfAttention enc t t t = Inr u \<and> shape u = [B, K, d_model]"
    and ff: "\<And>t. shape t = [B, K, d_model] \<Longrightarrow>
                \<exists>u. feedForward enc t = Inr u \<and> shape u = [B, K, d_model]"
  shows "\<exists>y. result_value (forward enc x s) = Inr y \<and> shape y = [B, K, d_model]"
proof -
  have "expandable (shape (s ! PE enc)) (shape (s ! x))"
    using len by (auto simp: pe sh expandable_PE)
  then obtain x' where x': "tensor_add (s ! x) (s ! PE enc) = Inr x'"
    using tensor_add_Inr_iff by blast
  have shx': "shape x' = [B, K, d_model]"
    using tensor_add_shape[OF x'] sh by simp
  obtain a where a: "selfAttention enc x' x' x' = Inr a" and sha: "shape a = [B, K, d_model]"
    using att[OF shx'] by blast
  obtain b where b: "tensor_add a x' = Inr b" and shb: "shape b = [B, K, d_model]"
    using tensor_add_same_shape[of x' a] sha shx' by auto
  obtain y1 where y1: "LayerNorm_forward (layerNorm1 enc) b = Inr y1"
    and shy1: "shape y1 = [B, K, d_model]"
    using LayerNorm_forward_ok[of b "layerNorm1 enc"] shb n1 by auto
  obtain f where f: "feedForward enc y1 = Inr f" and shf: "shape f = [B, K, d_model]"
    using ff[OF shy1] by blast
  obtain c where c: "tensor_add f x' = Inr c" and shc: "shape c = [B, K, d_model]"
    using tensor_add_same_shape[of x' f] shf shx' by auto
  obtain y2 where y2: "LayerNorm_forward (layerNorm2 enc) c = Inr y2"
    and shy2: "shape y2 = [B, K, d_model]"
    using LayerNorm_forward_ok[of c "layerNorm2 enc"] shc n2 by auto
  have "forward_value enc (s ! PE enc) (s ! x) = Inr y2"
    by (simp add: forward_value_def attention_value_def bind_res_def x' a b y1 f c y2)
  then show ?thesis
    using forward_value_refines[OF x, of enc] shy2 by simp
qed

theorem forward_shape_preserved_witness:
  "\<exists>y. result_value (forward (ex_encoder 2 2) 1
           (ex_store 2 2 \<lparr>shape = [1, 2, 2], data = [1, 2, 3, 4]\<rparr>)) = Inr y \<and>
       shape y = [1, 2, 2]"
proof (rule forward_shape_preserved[where k = 2])
  show "1 < length (ex_store 2 2 \<lparr>shape = [1, 2, 2], data = [1, 2, 3, 4]\<rparr>)"
    by (simp add: ex_defs)
  show "shape (ex_store 2 2 \<lparr>shape = [1, 2, 2], data = [1, 2, 3, 4]\<rparr> ! PE (ex_encoder 2 2)) = [2, 2]"
    by (simp add: ex_defs)
  show "normalized_shape (layerNorm1 (ex_encoder 2 2)) = 2"
    by (simp add: ex_defs)
  show "normalized_shape (layerNorm2 (ex_encoder 2 2)) = 2"
    by (simp add: ex_defs)
  show "shape (ex_store 2 2 \<lparr>shape = [1, 2, 2], data = [1, 2, 3, 4]\<rparr> ! 1) = [1, 2, 2]"
    by (simp add: ex_defs)
  show "(2::nat) = 2 \<or> (2::nat) = 1" by simp
  show "\<exists>u. selfAttention (ex_encoder 2 2) t t t = Inr u \<and> shape u = [1, 2, 2]"
    if "shape t = [1, 2, 2]" for t
    using that by (simp add: ex_defs)
  show "\<exists>u. feedForward (ex_encoder 2 2) t = Inr u \<and> shape u = [1, 2, 2]"
    if "shape t = [1, 2, 2]" for t
    using that by (simp add: ex_defs)
qed

text \<open>
  C3. For every input \<open>x\<close>, the first sub-layer result that forward computes (the
  value of \<open>x\<close> after line 76) is \<open>Normalize1(Attention(x', x', x') + x')\<close>, where
  \<open>x' = x + PE\<close> is what the variable \<open>residual\<close> refers to, and the same \<open>x'\<close> is query,
  key and value. Where a step raises, the specified computation raises the same error.
\<close>

theorem forward_attention_spec:
  assumes "x < length s"
  shows "(case forward_attention enc x s of
            (Inl e, s') \<Rightarrow> spec_sublayer1 enc (s ! PE enc) (s ! x) = Inl e
          | (Inr (y, residual), s') \<Rightarrow>
              spec_sublayer1 enc (s ! PE enc) (s ! x) = Inr (s' ! y) \<and>
              tensor_add (s ! x) (s ! PE enc) = Inr (s' ! residual))"
proof -
  have av: "\<And>y1 x'. attention_value enc (s ! PE enc) (s ! x) = Inr (y1, x') \<Longrightarrow>
              tensor_add (s ! x) (s ! PE enc) = Inr x'"
    by (auto simp: attention_value_def bind_res_def split: sum.splits)
  show ?thesis
    using forward_attention_value[OF assms, of enc] av
    by (auto simp: spec_sublayer1_attention_value split: prod.splits sum.splits)
qed

theorem forward_attention_spec_witness:
  "(1::nat) < length (ex_store 2 2 \<lparr>shape = [1, 2, 2], data = [1, 2, 3, 4]\<rparr>) \<and>
   spec_sublayer1 (ex_encoder 2 2) \<lparr>shape = [2, 2], data = [1, 1, 1, 1]\<rparr>
      \<lparr>shape = [1, 2, 2], data = [1, 2, 3, 4]\<rparr> =
     Inr \<lparr>shape = [1, 2, 2], data = [4, 6, 8, 10]\<rparr>"
proof -
  have l: "(1::nat) < length (ex_store 2 2 \<lparr>shape = [1, 2, 2], data = [1, 2, 3, 4]\<rparr>)"
    by (simp add: ex_defs)
  have r: "forward_attention (ex_encoder 2 2) 1
             (ex_store 2 2 \<lparr>shape = [1, 2, 2], data = [1, 2, 3, 4]\<rparr>) =
           (Inr (3, 1), [\<lparr>shape = [2, 2], data = [1, 1, 1, 1]\<rparr>,
                         \<lparr>shape = [1, 2, 2], data = [2, 3, 4, 5]\<rparr>,
                         \<lparr>shape = [1, 2, 2], data = [4, 6, 8, 10]\<rparr>,
                         \<lparr>shape = [1, 2, 2], data = [4, 6, 8, 10]\<rparr>])"
    by code_simp
  have p: "ex_store 2 2 \<lparr>shape = [1, 2, 2], data = [1, 2, 3, 4]\<rparr> ! PE (ex_encoder 2 2) =
           \<lparr>shape = [2, 2], data = [1, 1, 1, 1]\<rparr>"
    by code_simp
  have i: "ex_store 2 2 \<lparr>shape = [1, 2, 2], data = [1, 2, 3, 4]\<rparr> ! 1 =
           \<lparr>shape = [1, 2, 2], data = [1, 2, 3, 4]\<rparr>"
    by code_simp
  show ?thesis
    using forward_attention_spec[OF l, of "ex_encoder 2 2", unfolded r p i] l
    by simp
qed

text \<open>
  C4. The positional injection changes the caller's tensor in place: when forward
  returns, the object that was passed in holds \<open>x + PE\<close>. The later in-place additions
  go to objects that the sub-blocks created, and the result is another object than the
  input.
\<close>

theorem forward_mutates_input:
  assumes "x < length s" and "forward enc x s = (Inr r, s')"
  shows "tensor_add (s ! x) (s ! PE enc) = Inr (s' ! x) \<and> r \<noteq> x"
  using forward_input_after[OF assms] by simp

theorem forward_mutates_input_witness:
  "tensor_add \<lparr>shape = [1, 2, 2], data = [1, 2, 3, 4]\<rparr> \<lparr>shape = [2, 2], data = [1, 1, 1, 1]\<rparr> =
     Inr \<lparr>shape = [1, 2, 2], data = [2, 3, 4, 5 :: int]\<rparr> \<and> (5::nat) \<noteq> 1"
proof -
  have l: "(1::nat) < length (ex_store 2 2 \<lparr>shape = [1, 2, 2], data = [1, 2, 3, 4]\<rparr>)"
    by (simp add: ex_defs)
  have r: "forward (ex_encoder 2 2) 1 (ex_store 2 2 \<lparr>shape = [1, 2, 2], data = [1, 2, 3, 4]\<rparr>) =
           (Inr 5, [\<lparr>shape = [2, 2], data = [1, 1, 1, 1]\<rparr>,
                    \<lparr>shape = [1, 2, 2], data = [2, 3, 4, 5]\<rparr>,
                    \<lparr>shape = [1, 2, 2], data = [4, 6, 8, 10]\<rparr>,
                    \<lparr>shape = [1, 2, 2], data = [4, 6, 8, 10]\<rparr>,
                    \<lparr>shape = [1, 2, 2], data = [6, 9, 12, 15]\<rparr>,
                    \<lparr>shape = [1, 2, 2], data = [6, 9, 12, 15]\<rparr>])"
    by code_simp
  have p: "ex_store 2 2 \<lparr>shape = [1, 2, 2], data = [1, 2, 3, 4]\<rparr> ! PE (ex_encoder 2 2) =
           \<lparr>shape = [2, 2], data = [1, 1, 1, 1]\<rparr>"
    by code_simp
  have i: "ex_store 2 2 \<lparr>shape = [1, 2, 2], data = [1, 2, 3, 4]\<rparr> ! 1 =
           \<lparr>shape = [1, 2, 2], data = [1, 2, 3, 4]\<rparr>"
    by code_simp
  show ?thesis
    using forward_mutates_input[OF l r, unfolded p i] by simp
qed

text \<open>
  C5. The claim: for every input whose length \<open>K\<close> exceeds the capacity \<open>k\<close> of the
  table, forward reports an error and produces no output. With a table of one row and an
  input of length 2, the addition at line 70 broadcasts the row to both positions and
  forward returns a result.
\<close>

theorem forward_overflow_counterexample:
  "shape (ex_store 1 1 \<lparr>shape = [1, 2, 1], data = [5, 7]\<rparr> ! 1) = [1, 2, 1] \<and> (1::nat) < 2 \<and>
   shape (ex_store 1 1 \<lparr>shape = [1, 2, 1], data = [5, 7]\<rparr> ! PE (ex_encoder 1 1)) = [1, 1] \<and>
   result_value (forward (ex_encoder 1 1) 1 (ex_store 1 1 \<lparr>shape = [1, 2, 1], data = [5, 7]\<rparr>)) =
     Inr \<lparr>shape = [1, 2, 1], data = [18, 24]\<rparr>"
  by code_simp

text \<open>
  C5, amended. For every input whose length \<open>K\<close> exceeds the capacity \<open>k\<close> of the table,
  where \<open>k\<close> is not 1, forward reports an error at line 70 and leaves every object
  as it was.
\<close>

theorem forward_overflow_error:
  assumes "shape (s ! PE enc) = [k, d_model]" and "shape (s ! x) = [B, K, d]"
    and "k < K" and "k \<noteq> 1"
  shows "forward enc x s = (Inl ShapeError, s)"
proof (rule forward_error_at_injection)
  show "\<not> expandable (shape (s ! PE enc)) (shape (s ! x))"
    using assms by (simp add: expandable_PE)
qed

theorem forward_overflow_error_witness:
  "forward (ex_encoder 2 1) 1 (ex_store 2 1 \<lparr>shape = [1, 3, 1], data = [5, 7, 9]\<rparr>) =
     (Inl ShapeError, ex_store 2 1 \<lparr>shape = [1, 3, 1], data = [5, 7, 9]\<rparr>)"
proof (rule forward_overflow_error[where k = 2 and d_model = 1 and B = 1 and K = 3 and d = 1])
  show "shape (ex_store 2 1 \<lparr>shape = [1, 3, 1], data = [5, 7, 9]\<rparr> ! PE (ex_encoder 2 1)) = [2, 1]"
    by (simp add: ex_defs)
  show "shape (ex_store 2 1 \<lparr>shape = [1, 3, 1], data = [5, 7, 9]\<rparr> ! 1) = [1, 3, 1]"
    by (simp add: ex_defs)
  show "(2::nat) < 3" by simp
  show "(2::nat) \<noteq> 1" by simp
qed

text \<open>
  C6. The claim: for every input whose last dimension differs from \<open>d_model\<close>, forward
  reports a shape error immediately and returns no result. With \<open>d_model = 1\<close> the
  addition at line 70 broadcasts the one column of the table: for an input of shape
  \<open>(1, 2, 3)\<close> the error is raised at line 76 only, after the caller's tensor was
  changed from \<open>[1 .. 6]\<close> to \<open>[2 .. 7]\<close> and attention and the residual sum have run.
\<close>

theorem forward_last_dim_counterexample:
  "shape (ex_store 2 1 \<lparr>shape = [1, 2, 3], data = [1, 2, 3, 4, 5, 6]\<rparr> ! 1) = [1, 2, 3] \<and>
   normalized_shape (layerNorm1 (ex_encoder 2 1)) = 1 \<and>
   ex_store 2 1 \<lparr>shape = [1, 2, 3], data = [1, 2, 3, 4, 5, 6]\<rparr> =
     [\<lparr>shape = [2, 1], data = [1, 1]\<rparr>, \<lparr>shape = [1, 2, 3], data = [1, 2, 3, 4, 5, 6]\<rparr>] \<and>
   forward (ex_encoder 2 1) 1 (ex_store 2 1 \<lparr>shape = [1, 2, 3], data = [1, 2, 3, 4, 5, 6]\<rparr>) =
     (Inl ShapeError,
      [\<lparr>shape = [2, 1], data = [1, 1]\<rparr>,
       \<lparr>shape = [1, 2, 3], data = [2, 3, 4, 5, 6, 7]\<rparr>,
       \<lparr>shape = [1, 2, 3], data = [4, 6, 8, 10, 12, 14]\<rparr>])"
  by code_simp

text \<open>
  C6, amended. For every input whose last dimension differs from \<open>d_model\<close>, forward
  raises within lines 70 to 76 and returns no result; the error is a shape error, or the
  error that the attention block raised on the input with the table added. When
  \<open>d_model\<close> is not 1, it is the shape error of line 70 and every object is as it was.
  The addition at line 70 succeeds only when \<open>d_model\<close> is 1, and then the caller's
  tensor holds the input with the table added when the error is reported.
\<close>

theorem forward_last_dim_mismatch:
  assumes x: "x < length s"
    and pe: "shape (s ! PE enc) = [k, d_model]"
    and n1: "normalized_shape (layerNorm1 enc) = d_model"
    and sh: "shape (s ! x) = sh @ [d']"
    and d: "d' \<noteq> d_model"
  shows "(\<exists>e s'. forward_attention enc x s = (Inl e, s') \<and> forward enc x s = (Inl e, s') \<and>
            (e = ShapeError \<or>
             (\<exists>x'. tensor_add (s ! x) (s ! PE enc) = Inr x' \<and>
                   selfAttention enc x' x' x' = Inl e))) \<and>
         (d_model \<noteq> 1 \<longrightarrow> forward enc x s = (Inl ShapeError, s)) \<and>
         (\<forall>x'. tensor_add (s ! x) (s ! PE enc) = Inr x' \<longrightarrow>
               d_model = 1 \<and> snd (forward enc x s) ! x = x')"
proof (cases "expandable (shape (s ! PE enc)) (shape (s ! x))")
  case False
  then have f: "forward enc x s = (Inl ShapeError, s)"
    by (rule forward_error_at_injection)
  have a: "forward_attention enc x s = (Inl ShapeError, s)"
    using False by (rule forward_attention_error_at_injection)
  have "\<And>x'. tensor_add (s ! x) (s ! PE enc) \<noteq> Inr x'"
    using False tensor_add_Inr_iff by blast
  then show ?thesis using f a by simp
next
  case True
  then have one: "d_model = 1"
    using expandable_last[of "[k, d_model]" "shape (s ! x)"] pe sh d by auto
  then have "isl (attention_value enc (s ! PE enc) (s ! x))"
    using attention_value_last_dim[OF sh, of enc] d n1 by simp
  then obtain e where e: "attention_value enc (s ! PE enc) (s ! x) = Inl e"
    by (cases "attention_value enc (s ! PE enc) (s ! x)") auto
  obtain r s' where r: "forward_attention enc x s = (r, s')"
    by (cases "forward_attention enc x s") auto
  have a: "forward_attention enc x s = (Inl e, s')"
    using forward_attention_value[OF x, of enc] e r
    by (auto split: sum.splits prod.splits)
  have f: "forward enc x s = (Inl e, s')"
    using a by (rule forward_attention_Inl)
  have k: "e = ShapeError \<or>
           (\<exists>x'. tensor_add (s ! x) (s ! PE enc) = Inr x' \<and> selfAttention enc x' x' x' = Inl e)"
    using e by (rule attention_value_error)
  have "\<And>x'. tensor_add (s ! x) (s ! PE enc) = Inr x' \<Longrightarrow> snd (forward enc x s) ! x = x'"
    using x by (rule forward_input_store)
  then show ?thesis using a f k one by blast
qed

theorem forward_last_dim_mismatch_witness:
  "snd (forward (ex_encoder 2 1) 1
      (ex_store 2 1 \<lparr>shape = [1, 2, 3], data = [1, 2, 3, 4, 5, 6]\<rparr>)) ! 1 =
     \<lparr>shape = [1, 2, 3], data = [2, 3, 4, 5, 6, 7]\<rparr> \<and>
   forward (ex_encoder 2 2) 1 (ex_store 2 2 \<lparr>shape = [1, 2, 3], data = [1, 2, 3, 4, 5, 6]\<rparr>) =
     (Inl ShapeError, ex_store 2 2 \<lparr>shape = [1, 2, 3], data = [1, 2, 3, 4, 5, 6]\<rparr>)"
proof
  have t: "tensor_add (ex_store 2 1 \<lparr>shape = [1, 2, 3], data = [1, 2, 3, 4, 5, 6]\<rparr> ! 1)
             (ex_store 2 1 \<lparr>shape = [1, 2, 3], data = [1, 2, 3, 4, 5, 6]\<rparr> ! PE (ex_encoder 2 1)) =
           Inr \<lparr>shape = [1, 2, 3], data = [2, 3, 4, 5, 6, 7]\<rparr>"
    by code_simp
  have "(\<forall>x'. tensor_add (ex_store 2 1 \<lparr>shape = [1, 2, 3], data = [1, 2, 3, 4, 5, 6]\<rparr> ! 1)
             (ex_store 2 1 \<lparr>shape = [1, 2, 3], data = [1, 2, 3, 4, 5, 6]\<rparr> ! PE (ex_encoder 2 1)) =
           Inr x' \<longrightarrow>
           (1::nat) = 1 \<and>
           snd (forward (ex_encoder 2 1) 1
             (ex_store 2 1 \<lparr>shape = [1, 2, 3], data = [1, 2, 3, 4, 5, 6]\<rparr>)) ! 1 = x')"
    using forward_last_dim_mismatch[where enc = "ex_encoder 2 1" and x = 1 and k = 2
        and d_model = 1 and sh = "[1, 2]" and d' = 3
        and s = "ex_store 2 1 \<lparr>shape = [1, 2, 3], data = [1, 2, 3, 4, 5, 6]\<rparr>"]
    by (simp add: ex_defs)
  then show "snd (forward (ex_encoder 2 1) 1
      (ex_store 2 1 \<lparr>shape = [1, 2, 3], data = [1, 2, 3, 4, 5, 6]\<rparr>)) ! 1 =
     \<lparr>shape = [1, 2, 3], data = [2, 3, 4, 5, 6, 7]\<rparr>"
    using t by blast
  show "forward (ex_encoder 2 2) 1 (ex_store 2 2 \<lparr>shape = [1, 2, 3], data = [1, 2, 3, 4, 5, 6]\<rparr>) =
     (Inl ShapeError, ex_store 2 2 \<lparr>shape = [1, 2, 3], data = [1, 2, 3, 4, 5, 6]\<rparr>)"
    using forward_last_dim_mismatch[where enc = "ex_encoder 2 2" and x = 1 and k = 2
        and d_model = 2 and sh = "[1, 2]" and d' = 3
        and s = "ex_store 2 2 \<lparr>shape = [1, 2, 3], data = [1, 2, 3, 4, 5, 6]\<rparr>"]
    by (simp add: ex_defs)
qed




text \<open>
  C9. Batch independence. Let \<open>x1\<close> and \<open>x2\<close> have shape \<open>(1, K, d)\<close>, and let forward
  return \<open>y1\<close> on \<open>x1\<close> alone and \<open>y2\<close> on \<open>x2\<close> alone. Then forward on the stacked batch
  of shape \<open>(2, K, d)\<close> returns \<open>y1\<close> stacked on \<open>y2\<close>, provided attention and feed-forward
  are batch-independent on tensors of that shape and keep the shape, and the first
  normalisation keeps the length of a vector.
\<close>

theorem forward_batch_independent:
  assumes x1: "x1 < length s1" and x2: "x2 < length s2" and x: "x < length s"
    and pe1: "s1 ! PE enc = s ! PE enc" and pe2: "s2 ! PE enc = s ! PE enc"
    and pe: "shape (s ! PE enc) = [k, d_model]" and wfpe: "wf_tensor (s ! PE enc)"
    and sh1: "shape (s1 ! x1) = [1, K, d]" and wf1: "wf_tensor (s1 ! x1)"
    and sh2: "shape (s2 ! x2) = [1, K, d]" and wf2: "wf_tensor (s2 ! x2)"
    and stacked: "s ! x = cat0 (s1 ! x1) (s2 ! x2)"
    and rows: "\<And>r. length (row_fn (layerNorm1 enc) r) = length r"
    and att_shape: "\<And>t a. shape t = [1, K, d] \<Longrightarrow> wf_tensor t \<Longrightarrow>
        selfAttention enc t t t = Inr a \<Longrightarrow> shape a = [1, K, d] \<and> wf_tensor a"
    and att_batch: "\<And>t u a b. shape t = [1, K, d] \<Longrightarrow> wf_tensor t \<Longrightarrow>
        shape u = [1, K, d] \<Longrightarrow> wf_tensor u \<Longrightarrow>
        selfAttention enc t t t = Inr a \<Longrightarrow> selfAttention enc u u u = Inr b \<Longrightarrow>
        selfAttention enc (cat0 t u) (cat0 t u) (cat0 t u) = Inr (cat0 a b)"
    and ff_shape: "\<And>t a. shape t = [1, K, d] \<Longrightarrow> wf_tensor t \<Longrightarrow>
        feedForward enc t = Inr a \<Longrightarrow> shape a = [1, K, d] \<and> wf_tensor a"
    and ff_batch: "\<And>t u a b. shape t = [1, K, d] \<Longrightarrow> wf_tensor t \<Longrightarrow>
        shape u = [1, K, d] \<Longrightarrow> wf_tensor u \<Longrightarrow>
        feedForward enc t = Inr a \<Longrightarrow> feedForward enc u = Inr b \<Longrightarrow>
        feedForward enc (cat0 t u) = Inr (cat0 a b)"
    and r1: "result_value (forward enc x1 s1) = Inr y1"
    and r2: "result_value (forward enc x2 s2) = Inr y2"
  shows "result_value (forward enc x s) = Inr (cat0 y1 y2)"
proof -
  have v1: "forward_value enc (s ! PE enc) (s1 ! x1) = Inr y1"
    using forward_value_refines[OF x1, of enc] r1 pe1 by simp
  have v2: "forward_value enc (s ! PE enc) (s2 ! x2) = Inr y2"
    using forward_value_refines[OF x2, of enc] r2 pe2 by simp
  have "forward_value enc (s ! PE enc) (cat0 (s1 ! x1) (s2 ! x2)) = Inr (cat0 y1 y2)"
    using pe wfpe sh1 wf1 sh2 wf2 rows att_shape att_batch ff_shape ff_batch v1 v2
    by (rule forward_value_cat0)
  then show ?thesis
    using forward_value_refines[OF x, of enc] stacked by simp
qed

theorem forward_batch_independent_witness:
  "result_value (forward (ex_encoder 2 2) 1
      (ex_store 2 2 \<lparr>shape = [2, 2, 2], data = [1, 2, 3, 4, 5, 6, 7, 8]\<rparr>)) =
   Inr (cat0 \<lparr>shape = [1, 2, 2], data = [6, 9, 12, 15]\<rparr>
             \<lparr>shape = [1, 2, 2], data = [18, 21, 24, 27]\<rparr>)"
proof (rule forward_batch_independent[where k = 2 and d_model = 2 and K = 2 and d = 2
      and ?x1.0 = 1 and ?x2.0 = 1
      and ?s1.0 = "ex_store 2 2 \<lparr>shape = [1, 2, 2], data = [1, 2, 3, 4]\<rparr>"
      and ?s2.0 = "ex_store 2 2 \<lparr>shape = [1, 2, 2], data = [5, 6, 7, 8]\<rparr>"])
  show "1 < length (ex_store 2 2 \<lparr>shape = [1, 2, 2], data = [1, 2, 3, 4]\<rparr>)"
    by (simp add: ex_defs)
  show "1 < length (ex_store 2 2 \<lparr>shape = [1, 2, 2], data = [5, 6, 7, 8]\<rparr>)"
    by (simp add: ex_defs)
  show "1 < length (ex_store 2 2 \<lparr>shape = [2, 2, 2], data = [1, 2, 3, 4, 5, 6, 7, 8]\<rparr>)"
    by (simp add: ex_defs)
  show "ex_store 2 2 \<lparr>shape = [1, 2, 2], data = [1, 2, 3, 4]\<rparr> ! PE (ex_encoder 2 2) =
        ex_store 2 2 \<lparr>shape = [2, 2, 2], data = [1, 2, 3, 4, 5, 6, 7, 8]\<rparr> ! PE (ex_encoder 2 2)"
    by (simp add: ex_defs)
  show "ex_store 2 2 \<lparr>shape = [1, 2, 2], data = [5, 6, 7, 8]\<rparr> ! PE (ex_encoder 2 2) =
        ex_store 2 2 \<lparr>shape = [2, 2, 2], data = [1, 2, 3, 4, 5, 6, 7, 8]\<rparr> ! PE (ex_encoder 2 2)"
    by (simp add: ex_defs)
  show "shape (ex_store 2 2 \<lparr>shape = [2, 2, 2], data = [1, 2, 3, 4, 5, 6, 7, 8]\<rparr> !
          PE (ex_encoder 2 2)) = [2, 2]"
    by (simp add: ex_defs)
  show "wf_tensor (ex_store 2 2 \<lparr>shape = [2, 2, 2], data = [1, 2, 3, 4, 5, 6, 7, 8]\<rparr> !
          PE (ex_encoder 2 2))"
    by (simp add: ex_defs wf_tensor_def)
  show "shape (ex_store 2 2 \<lparr>shape = [1, 2, 2], data = [1, 2, 3, 4]\<rparr> ! 1) = [1, 2, 2]"
    by (simp add: ex_defs)
  show "wf_tensor (ex_store 2 2 \<lparr>shape = [1, 2, 2], data = [1, 2, 3, 4]\<rparr> ! 1)"
    by (simp add: ex_defs wf_tensor_def)
  show "shape (ex_store 2 2 \<lparr>shape = [1, 2, 2], data = [5, 6, 7, 8]\<rparr> ! 1) = [1, 2, 2]"
    by (simp add: ex_defs)
  show "wf_tensor (ex_store 2 2 \<lparr>shape = [1, 2, 2], data = [5, 6, 7, 8]\<rparr> ! 1)"
    by (simp add: ex_defs wf_tensor_def)
  show "ex_store 2 2 \<lparr>shape = [2, 2, 2], data = [1, 2, 3, 4, 5, 6, 7, 8]\<rparr> ! 1 =
        cat0 (ex_store 2 2 \<lparr>shape = [1, 2, 2], data = [1, 2, 3, 4]\<rparr> ! 1)
             (ex_store 2 2 \<lparr>shape = [1, 2, 2], data = [5, 6, 7, 8]\<rparr> ! 1)"
    by (simp add: ex_defs cat0_def)
  show "length (row_fn (layerNorm1 (ex_encoder 2 2)) r) = length r" for r
    by (simp add: ex_defs)
  show "shape a = [1, 2, 2] \<and> wf_tensor a"
    if "shape t = [1, 2, 2]" "wf_tensor t" "selfAttention (ex_encoder 2 2) t t t = Inr a" for t a
    using that by (auto simp: ex_defs)
  show "selfAttention (ex_encoder 2 2) (cat0 t u) (cat0 t u) (cat0 t u) = Inr (cat0 a b)"
    if "selfAttention (ex_encoder 2 2) t t t = Inr a" "selfAttention (ex_encoder 2 2) u u u = Inr b"
    for t u a b
    using that by (auto simp: ex_defs)
  show "shape a = [1, 2, 2] \<and> wf_tensor a"
    if "shape t = [1, 2, 2]" "wf_tensor t" "feedForward (ex_encoder 2 2) t = Inr a" for t a
    using that by (auto simp: ex_defs)
  show "feedForward (ex_encoder 2 2) (cat0 t u) = Inr (cat0 a b)"
    if "feedForward (ex_encoder 2 2) t = Inr a" "feedForward (ex_encoder 2 2) u = Inr b"
    for t u a b
    using that by (auto simp: ex_defs)
  show "result_value (forward (ex_encoder 2 2) 1
          (ex_store 2 2 \<lparr>shape = [1, 2, 2], data = [1, 2, 3, 4]\<rparr>)) =
        Inr \<lparr>shape = [1, 2, 2], data = [6, 9, 12, 15]\<rparr>"
    by code_simp
  show "result_value (forward (ex_encoder 2 2) 1
          (ex_store 2 2 \<lparr>shape = [1, 2, 2], data = [5, 6, 7, 8]\<rparr>)) =
        Inr \<lparr>shape = [1, 2, 2], data = [18, 21, 24, 27]\<rparr>"
    by code_simp
qed

text \<open>
  C10. Forward accepts only the sequence length \<open>k\<close> when \<open>k > 1\<close>: for every input of
  shape \<open>(B, K, d)\<close> with another length, shorter ones in particular, the in-place
  addition of the \<open>(k, d_model)\<close> table at line 70 raises, and no object is changed.
\<close>

theorem forward_other_length_error:
  assumes "shape (s ! PE enc) = [k, d_model]" and "shape (s ! x) = [B, K, d]"
    and "1 < k" and "K \<noteq> k"
  shows "forward enc x s = (Inl ShapeError, s)"
proof (rule forward_error_at_injection)
  show "\<not> expandable (shape (s ! PE enc)) (shape (s ! x))"
    using assms by (auto simp: expandable_PE)
qed

theorem forward_other_length_error_witness:
  "forward (ex_encoder 3 2) 1 (ex_store 3 2 \<lparr>shape = [1, 2, 2], data = [1, 2, 3, 4]\<rparr>) =
     (Inl ShapeError, ex_store 3 2 \<lparr>shape = [1, 2, 2], data = [1, 2, 3, 4]\<rparr>)"
proof (rule forward_other_length_error[where k = 3 and d_model = 2 and B = 1 and K = 2 and d = 2])
  show "shape (ex_store 3 2 \<lparr>shape = [1, 2, 2], data = [1, 2, 3, 4]\<rparr> ! PE (ex_encoder 3 2)) = [3, 2]"
    by (simp add: ex_defs)
  show "shape (ex_store 3 2 \<lparr>shape = [1, 2, 2], data = [1, 2, 3, 4]\<rparr> ! 1) = [1, 2, 2]"
    by (simp add: ex_defs)
  show "(1::nat) < 3" by simp
  show "(2::nat) \<noteq> 3" by simp
qed

end
